theory Spec2Isabelle
  imports Complex_Main "HOL-Library.AList"
begin

section \<open>Sustainable resource management: the domain classes\<close>

text \<open>
  A shallow embedding of \<^verbatim>\<open>models/resource.py\<close> and \<^verbatim>\<open>models/consumer.py\<close>.

  \<^item> Quantities are Python numbers. They are modelled as exact rationals: this is what
    Python computes on \<^verbatim>\<open>int\<close> arguments (as the console demo passes), and it idealises
    \<^verbatim>\<open>float\<close> arguments: binary rounding, NaN and the infinities are outside the model.
  \<^item> Objects are shared by reference. A \<open>ref\<close> is the identity of an object and a heap
    maps every reference to the current state of its object. \<^verbatim>\<open>Resource\<close> defines no
    \<^verbatim>\<open>__eq__\<close>, so Python's \<^verbatim>\<open>in\<close> on a list of resources compares identities.
  \<^item> A \<^verbatim>\<open>dict\<close> is an association list in insertion order; storing a key is
    \<open>AList.update\<close>, which replaces in place or appends, as \<^verbatim>\<open>d[k] = v\<close> does.
  \<^item> Strings are UTF-8 byte lists. The two glyphs that open every message are not ASCII
    and are written by their bytes.
  \<^item> What the methods read from the runtime is a parameter: the rendering of a number by
    an f-string (\<open>formatter\<close>) and the clock (\<open>now\<close>).
\<close>

subsection \<open>Values and strings\<close>

type_synonym ref = nat

datatype pyval = PStr string | PNum rat | PBool bool

type_synonym pydict = "(string \<times> pyval) list"

record formatter =
  fmt_plain :: "rat \<Rightarrow> string"  \<comment> \<open>\<^verbatim>\<open>f"{x}"\<close>\<close>
  fmt_2f :: "rat \<Rightarrow> string"  \<comment> \<open>\<^verbatim>\<open>f"{x:.2f}"\<close>\<close>

definition check_mark :: string where
  \<comment> \<open>U+2714, the heavy check mark\<close>
  "check_mark = [CHR 0xE2, CHR 0x9C, CHR 0x94]"

definition warn_mark :: string where
  \<comment> \<open>U+26A0, the warning sign\<close>
  "warn_mark = [CHR 0xE2, CHR 0x9A, CHR 0xA0]"

definition startswith :: "string \<Rightarrow> string \<Rightarrow> bool" where
  \<comment> \<open>\<^verbatim>\<open>s.startswith(p)\<close>\<close>
  "startswith s p = (take (length p) s = p)"

definition py_round :: "rat \<Rightarrow> nat \<Rightarrow> rat" where
  \<comment> \<open>\<^verbatim>\<open>round(x, n)\<close>: the nearest multiple of \<open>10 ^ -n\<close>, a tie going to the even one\<close>
  "py_round x n =
     (let y = x * 10 ^ n; f = \<lfloor>y\<rfloor>; d = y - of_int f;
          k = (if d < 1 / 2 then f else if 1 / 2 < d then f + 1
               else if even f then f else f + 1)
      in of_int k / 10 ^ n)"

subsection \<open>Resource and its subclasses\<close>

datatype variant =
    Base
  | Water (source: string)
  | Energy (energy_type: string)
  | Waste (waste_category: string)

record resource =
  name :: string
  total_available :: rat
  initial_amount :: rat
  renewable :: bool
  usage_log :: "pydict list"
  variant :: variant

definition Resource_init :: "string \<Rightarrow> rat \<Rightarrow> bool \<Rightarrow> resource" where
  "Resource_init nm qty ren =
     \<lparr>name = nm, total_available = qty, initial_amount = qty,
      renewable = ren, usage_log = [], variant = Base\<rparr>"

text \<open>An argument with a default value is an option; \<open>None\<close> takes the default.\<close>

definition WaterResource_init :: "rat \<Rightarrow> string option \<Rightarrow> bool option \<Rightarrow> resource" where
  "WaterResource_init qty src ren =
     (Resource_init ''Water'' qty (case ren of None \<Rightarrow> True | Some b \<Rightarrow> b))
       \<lparr>variant := Water (case src of None \<Rightarrow> ''Reservoir'' | Some s \<Rightarrow> s)\<rparr>"

definition EnergyResource_init :: "rat \<Rightarrow> string option \<Rightarrow> bool option \<Rightarrow> resource" where
  "EnergyResource_init qty ety ren =
     (Resource_init ''Electricity'' qty (case ren of None \<Rightarrow> True | Some b \<Rightarrow> b))
       \<lparr>variant := Energy (case ety of None \<Rightarrow> ''Solar'' | Some s \<Rightarrow> s)\<rparr>"

definition WasteResource_init :: "rat \<Rightarrow> string option \<Rightarrow> bool option \<Rightarrow> resource" where
  "WasteResource_init qty cat ren =
     (Resource_init ''Waste'' qty (case ren of None \<Rightarrow> False | Some b \<Rightarrow> b))
       \<lparr>variant := Waste (case cat of None \<Rightarrow> ''Recyclable'' | Some s \<Rightarrow> s)\<rparr>"



definition update_availability ::
  "formatter \<Rightarrow> string \<Rightarrow> resource \<Rightarrow> rat \<Rightarrow> resource \<times> string" where
  \<comment> \<open>returns the object's new state and the message\<close>
  "update_availability F now r amount =
     (if amount \<le> 0 then
        (r, warn_mark @ '' Invalid amount ('' @ fmt_plain F amount @ ''). Must be positive.'')
      else if amount > total_available r then
        (r, warn_mark @ '' Insufficient '' @ name r @ ''! '' @
            ''Requested '' @ fmt_plain F amount @ '', but only '' @
            fmt_2f F (total_available r) @ '' available.'')
      else
        (let remaining = total_available r - amount;
             r' = r\<lparr>total_available := remaining,
                    usage_log := usage_log r @
                      [[(''resource'', PStr (name r)),
                        (''amount'', PNum amount),
                        (''remaining'', PNum (py_round remaining 2)),
                        (''timestamp'', PStr now)]]\<rparr>
         in (r', check_mark @ '' '' @ fmt_plain F amount @ '' units of '' @ name r @
                 '' consumed. '' @ ''Remaining: '' @ fmt_2f F remaining)))"

subsection \<open>Consumer\<close>

datatype ident = IdStr string | IdInt int

record consumer =
  consumer_id :: ident
  consumer_name :: string
  assigned_resources :: "ref list"
  consumption_history :: "pydict list"

definition Consumer_init :: "ident \<Rightarrow> string \<Rightarrow> ref list option \<Rightarrow> consumer" where
  \<comment> \<open>\<^verbatim>\<open>assigned_resources or []\<close>: \<open>None\<close> and the empty list both give the empty list\<close>
  "Consumer_init cid nm assigned =
     \<lparr>consumer_id = cid, consumer_name = nm,
      assigned_resources = (case assigned of None \<Rightarrow> [] | Some rs \<Rightarrow> rs),
      consumption_history = []\<rparr>"

definition assign_resource ::
  "(ref \<Rightarrow> resource) \<Rightarrow> consumer \<Rightarrow> ref \<Rightarrow> consumer \<times> string" where
  "assign_resource heap c res =
     (if res \<in> set (assigned_resources c) then
        (c, warn_mark @ '' '' @ name (heap res) @ '' is already assigned to '' @
            consumer_name c @ ''.'')
      else
        (c\<lparr>assigned_resources := assigned_resources c @ [res]\<rparr>,
         check_mark @ '' '' @ name (heap res) @ '' assigned to '' @ consumer_name c @ ''.''))"

definition log_consumption ::
  "consumer \<Rightarrow> string \<Rightarrow> resource \<Rightarrow> rat \<Rightarrow> consumer" where
  \<comment> \<open>the block under \<^verbatim>\<open># Log successful consumption only\<close>;
      \<open>r\<close> is the resource after the call\<close>
  "log_consumption c result r amount =
     (if startswith result check_mark then
        c\<lparr>consumption_history := consumption_history c @
            [[(''consumer'', PStr (consumer_name c)),
              (''resource'', PStr (name r)),
              (''amount'', PNum amount),
              (''remaining'', PNum (total_available r))]]\<rparr>
      else c)"

definition use_resource ::
  "formatter \<Rightarrow> string \<Rightarrow> (ref \<Rightarrow> resource) \<Rightarrow> consumer \<Rightarrow> ref \<Rightarrow> rat \<Rightarrow>
     (ref \<Rightarrow> resource) \<times> consumer \<times> string" where
  \<comment> \<open>returns the new heap, the consumer's new state and the message\<close>
  "use_resource F now heap c res amount =
     (if res \<notin> set (assigned_resources c) then
        (heap, c, warn_mark @ '' '' @ name (heap res) @ '' is not assigned to '' @
                  consumer_name c @ ''. '' @ ''Please assign it first.'')
      else
        (let (r', result) = update_availability F now (heap res) amount
         in (heap(res := r'), log_consumption c result r' amount, result)))"

subsection \<open>Sequences of calls\<close>






subsection \<open>A concrete formatter\<close>

text \<open>
  How an f-string renders a Python \<^verbatim>\<open>int\<close>: \<^verbatim>\<open>f"{n}"\<close> is the decimal digits of \<open>n\<close>
  and \<^verbatim>\<open>f"{n:.2f}"\<close> appends \<^verbatim>\<open>.00\<close>. It instantiates the formatter at integer
  quantities, where the examples below use it.
\<close>

fun digits :: "nat \<Rightarrow> string" where
  "digits n = (if n < 10 then [''0123456789'' ! n]
               else digits (n div 10) @ [''0123456789'' ! (n mod 10)])"

definition str_int :: "int \<Rightarrow> string" where
  "str_int i = (if i < 0 then ''-'' @ digits (nat (- i)) else digits (nat i))"

definition int_formatter :: formatter where
  "int_formatter =
     \<lparr>fmt_plain = (\<lambda>x. str_int \<lfloor>x\<rfloor>), fmt_2f = (\<lambda>x. str_int \<lfloor>x\<rfloor> @ ''.00'')\<rparr>"

subsection \<open>The console demo's objects\<close>

text \<open>
  The resources that \<^verbatim>\<open>main.py\<close> creates, at references 0 (water), 1 (electricity) and
  2 (waste), and the extra water supply that is never assigned (every other reference);
  and the household after its three \<^verbatim>\<open>assign_resource\<close> calls.
\<close>

definition demo_heap :: "ref \<Rightarrow> resource" where
  "demo_heap i =
     (if i = 0 then WaterResource_init 10000 (Some ''River'') None
      else if i = 1 then EnergyResource_init 5000 (Some ''Solar'') None
      else if i = 2 then WasteResource_init 2000 (Some ''Recyclable'') None
      else WaterResource_init 500 (Some ''Groundwater'') None)"

definition household :: consumer where
  "household =
     fst (assign_resource demo_heap
       (fst (assign_resource demo_heap
         (fst (assign_resource demo_heap
           (Consumer_init (IdStr ''C-101'') ''Residential Block A'' None) 0)) 1)) 2)"



section \<open>Properties\<close>

subsection \<open>Evaluation rules and the two glyphs\<close>

declare digits.simps [simp del]

lemmas digits_eval =
  digits.simps [of "numeral k" for k] digits.simps [of 0] digits.simps [of "Suc 0"]

lemmas fmt_eval = int_formatter_def str_int_def digits_eval

lemma household_eval:
  "household = \<lparr>consumer_id = IdStr ''C-101'', consumer_name = ''Residential Block A'',
     assigned_resources = [0, 1, 2], consumption_history = []\<rparr>"
  by (simp add: household_def assign_resource_def Consumer_init_def)

lemmas demo_eval = demo_heap_def WaterResource_init_def EnergyResource_init_def
  WasteResource_init_def Resource_init_def household_eval

lemma startswith_check_mark: "startswith (check_mark @ s) check_mark"
  by (simp add: startswith_def check_mark_def)

lemma startswith_warn_mark: "\<not> startswith (warn_mark @ s) check_mark"
  by (simp add: startswith_def check_mark_def warn_mark_def)

lemma startswith_warn_warn: "startswith (warn_mark @ s) warn_mark"
  by (simp add: startswith_def warn_mark_def)

lemma startswith_check_warn: "\<not> startswith (check_mark @ s) warn_mark"
  by (simp add: startswith_def check_mark_def warn_mark_def)

lemmas startswith_marks =
  startswith_check_mark startswith_warn_mark startswith_warn_warn startswith_check_warn

subsection \<open>The three branches of \<open>update_availability\<close>\<close>

lemma update_availability_invalid:
  "amount \<le> 0 \<Longrightarrow>
   update_availability F now r amount =
     (r, warn_mark @ '' Invalid amount ('' @ fmt_plain F amount @ ''). Must be positive.'')"
  by (simp add: update_availability_def)

lemma update_availability_insufficient:
  "0 < amount \<Longrightarrow> total_available r < amount \<Longrightarrow>
   update_availability F now r amount =
     (r, warn_mark @ '' Insufficient '' @ name r @ ''! Requested '' @ fmt_plain F amount @
         '', but only '' @ fmt_2f F (total_available r) @ '' available.'')"
  by (simp add: update_availability_def)

lemma update_availability_ok:
  "0 < amount \<Longrightarrow> amount \<le> total_available r \<Longrightarrow>
   update_availability F now r amount =
     (r\<lparr>total_available := total_available r - amount,
        usage_log := usage_log r @
          [[(''resource'', PStr (name r)), (''amount'', PNum amount),
            (''remaining'', PNum (py_round (total_available r - amount) 2)),
            (''timestamp'', PStr now)]]\<rparr>,
      check_mark @ '' '' @ fmt_plain F amount @ '' units of '' @ name r @
        '' consumed. Remaining: '' @ fmt_2f F (total_available r - amount))"
  by (simp add: update_availability_def Let_def)

lemma update_availability_success_iff:
  "startswith (snd (update_availability F now r amount)) check_mark \<longleftrightarrow>
   0 < amount \<and> amount \<le> total_available r"
proof (cases "amount \<le> 0")
  case True
  then show ?thesis
    by (simp add: update_availability_invalid startswith_marks)
next
  case pos: False
  show ?thesis
  proof (cases "total_available r < amount")
    case True
    with pos show ?thesis
      by (simp add: update_availability_insufficient startswith_marks)
  next
    case False
    with pos show ?thesis
      by (simp add: update_availability_ok startswith_marks)
  qed
qed

lemma update_availability_fail_same:
  "\<not> (0 < amount \<and> amount \<le> total_available r) \<Longrightarrow>
   fst (update_availability F now r amount) = r"
  by (cases "amount \<le> 0") (simp_all add: update_availability_invalid update_availability_insufficient)




subsection \<open>The branches of \<open>use_resource\<close>\<close>

lemma use_resource_not_assigned:
  "res \<notin> set (assigned_resources c) \<Longrightarrow>
   use_resource F now heap c res amount =
     (heap, c, warn_mark @ '' '' @ name (heap res) @ '' is not assigned to '' @
               consumer_name c @ ''. Please assign it first.'')"
  by (simp add: use_resource_def)

lemma use_resource_assigned:
  "res \<in> set (assigned_resources c) \<Longrightarrow>
   use_resource F now heap c res amount =
     (heap(res := fst (update_availability F now (heap res) amount)),
      log_consumption c (snd (update_availability F now (heap res) amount))
        (fst (update_availability F now (heap res) amount)) amount,
      snd (update_availability F now (heap res) amount))"
  by (simp add: use_resource_def split_beta)

lemma use_resource_assigned_fail:
  assumes "res \<in> set (assigned_resources c)"
    and "amount \<le> 0 \<or> total_available (heap res) < amount"
  shows "use_resource F now heap c res amount =
     (heap, c, snd (update_availability F now (heap res) amount))"
proof -
  from assms(2) have n: "\<not> (0 < amount \<and> amount \<le> total_available (heap res))" by auto
  then have "fst (update_availability F now (heap res) amount) = heap res"
    by (rule update_availability_fail_same)
  moreover from n have "\<not> startswith (snd (update_availability F now (heap res) amount)) check_mark"
    by (simp add: update_availability_success_iff)
  ultimately show ?thesis
    using assms(1) by (simp add: use_resource_assigned log_consumption_def)
qed

lemma use_resource_assigned_ok:
  assumes "res \<in> set (assigned_resources c)"
    and "0 < amount" and "amount \<le> total_available (heap res)"
  shows "use_resource F now heap c res amount =
     (heap(res := fst (update_availability F now (heap res) amount)),
      c\<lparr>consumption_history := consumption_history c @
          [[(''consumer'', PStr (consumer_name c)), (''resource'', PStr (name (heap res))),
            (''amount'', PNum amount),
            (''remaining'', PNum (total_available (heap res) - amount))]]\<rparr>,
      snd (update_availability F now (heap res) amount))"
  using assms
  by (simp add: use_resource_assigned log_consumption_def update_availability_ok startswith_marks)


subsection \<open>The branches of \<open>assign_resource\<close>\<close>

lemma assign_resource_present:
  "res \<in> set (assigned_resources c) \<Longrightarrow>
   assign_resource heap c res =
     (c, warn_mark @ '' '' @ name (heap res) @ '' is already assigned to '' @
         consumer_name c @ ''.'')"
  by (simp add: assign_resource_def)

lemma assign_resource_absent:
  "res \<notin> set (assigned_resources c) \<Longrightarrow>
   assign_resource heap c res =
     (c\<lparr>assigned_resources := assigned_resources c @ [res]\<rparr>,
      check_mark @ '' '' @ name (heap res) @ '' assigned to '' @ consumer_name c @ ''.'')"
  by (simp add: assign_resource_def)

lemma assign_resource_member:
  "res \<in> set (assigned_resources (fst (assign_resource heap c res)))"
  by (simp add: assign_resource_def)

lemma assign_resource_count:
  "count_list (assigned_resources (fst (assign_resource heap c res))) res =
     max 1 (count_list (assigned_resources c) res)"
proof (cases "res \<in> set (assigned_resources c)")
  case True
  then have "0 < count_list (assigned_resources c) res"
    by (metis count_list_0_iff not_gr_zero)
  with True show ?thesis by (simp add: assign_resource_present)
next
  case False
  then have "count_list (assigned_resources c) res = 0"
    by (simp add: count_list_0_iff)
  with False show ?thesis by (simp add: assign_resource_absent)
qed

subsection \<open>The report\<close>




subsection \<open>One call, and a sequence of calls\<close>






subsection \<open>Construction\<close>

text \<open>
  Claim C10. The constructors do not validate the quantity: for every rational \<open>q\<close>,
  negative ones included, the new object has \<open>total_available = initial_amount = q\<close>.
  The model's constructors are total functions with no error branch, as the source's
  have no \<^verbatim>\<open>raise\<close>.
\<close>

theorem constructor_no_validation:
  "total_available (Resource_init nm q ren) = q \<and>
   initial_amount (Resource_init nm q ren) = q \<and>
   total_available (WaterResource_init q src wren) = q \<and>
   initial_amount (WaterResource_init q src wren) = q \<and>
   total_available (EnergyResource_init q ety eren) = q \<and>
   initial_amount (EnergyResource_init q ety eren) = q \<and>
   total_available (WasteResource_init q cat waren) = q \<and>
   initial_amount (WasteResource_init q cat waren) = q"
  by (simp add: Resource_init_def WaterResource_init_def EnergyResource_init_def
      WasteResource_init_def)

subsection \<open>Successful consumption\<close>





subsection \<open>Failed consumption\<close>




text \<open>
  Claim C4. A failed \<open>use_resource\<close> call (the resource is not assigned, the amount is
  not positive, or it exceeds the availability) changes neither the heap nor the
  consumer: \<open>total_available\<close>, the length of the resource's usage log and the length
  of the consumer's history stay as they were. When the resource is not assigned the
  heap is returned as it was given and the message is the not-assigned one.
\<close>

theorem use_resource_failure_noop:
  assumes "res \<notin> set (assigned_resources c) \<or> amount \<le> 0 \<or> total_available (heap res) < amount"
  shows "\<not> startswith (snd (snd (use_resource F now heap c res amount))) check_mark \<and>
         fst (use_resource F now heap c res amount) = heap \<and>
         fst (snd (use_resource F now heap c res amount)) = c \<and>
         total_available (fst (use_resource F now heap c res amount) res) =
           total_available (heap res) \<and>
         length (usage_log (fst (use_resource F now heap c res amount) res)) =
           length (usage_log (heap res)) \<and>
         length (consumption_history (fst (snd (use_resource F now heap c res amount)))) =
           length (consumption_history c) \<and>
         (res \<notin> set (assigned_resources c) \<longrightarrow>
            snd (snd (use_resource F now heap c res amount)) =
              warn_mark @ '' '' @ name (heap res) @ '' is not assigned to '' @
                consumer_name c @ ''. Please assign it first.'')"
proof (cases "res \<in> set (assigned_resources c)")
  case False
  then show ?thesis
    by (simp add: use_resource_not_assigned startswith_marks)
next
  case True
  with assms have f: "amount \<le> 0 \<or> total_available (heap res) < amount" by simp
  then have "\<not> (0 < amount \<and> amount \<le> total_available (heap res))" by auto
  then have "\<not> startswith (snd (update_availability F now (heap res) amount)) check_mark"
    by (simp add: update_availability_success_iff)
  with True f show ?thesis
    by (simp add: use_resource_assigned_fail)
qed

theorem use_resource_failure_noop_witness:
  "3 \<notin> set (assigned_resources household) \<and>
   use_resource int_formatter ''2024-01-01T00:00:00'' demo_heap household 3 100 =
     (demo_heap, household,
      warn_mark @ '' Water is not assigned to Residential Block A. Please assign it first.'') \<and>
   usage_log (fst (use_resource int_formatter ''2024-01-01T00:00:00'' demo_heap household 3 100) 3) = []"
proof -
  have h: "3 \<notin> set (assigned_resources household)"
    by (simp add: household_eval)
  have n: "name (demo_heap 3) = ''Water''" "consumer_name household = ''Residential Block A''"
    "usage_log (demo_heap 3) = []"
    by (simp_all add: demo_eval)
  from use_resource_failure_noop [where res = 3 and c = household and amount = 100
      and heap = demo_heap and F = int_formatter and now = "''2024-01-01T00:00:00''"] h n
  show ?thesis by (simp add: prod_eq_iff)
qed

subsection \<open>Forwarding by the consumer\<close>

text \<open>
  Claim C7. On an assigned resource, \<open>use_resource\<close> returns the very message of
  \<open>update_availability\<close>, stores the resource's new state, and appends the entry
  (consumer name, resource name, amount, the resource's \<open>total_available\<close> after the
  call) to the history exactly when that call succeeded, which is exactly when its
  message opens with the check mark.
\<close>

theorem use_resource_forwards:
  assumes "res \<in> set (assigned_resources c)"
  shows "snd (snd (use_resource F now heap c res amount)) =
           snd (update_availability F now (heap res) amount) \<and>
         fst (use_resource F now heap c res amount) =
           heap(res := fst (update_availability F now (heap res) amount)) \<and>
         fst (snd (use_resource F now heap c res amount)) =
           (if 0 < amount \<and> amount \<le> total_available (heap res) then
              c\<lparr>consumption_history := consumption_history c @
                [[(''consumer'', PStr (consumer_name c)),
                  (''resource'', PStr (name (heap res))),
                  (''amount'', PNum amount),
                  (''remaining'',
                     PNum (total_available (fst (use_resource F now heap c res amount) res)))]]\<rparr>
            else c) \<and>
         (startswith (snd (update_availability F now (heap res) amount)) check_mark \<longleftrightarrow>
            0 < amount \<and> amount \<le> total_available (heap res))"
proof (cases "0 < amount \<and> amount \<le> total_available (heap res)")
  case True
  with assms show ?thesis
    by (simp add: use_resource_assigned_ok update_availability_ok startswith_marks)
next
  case False
  then have "amount \<le> 0 \<or> total_available (heap res) < amount" by auto
  with assms False show ?thesis
    by (simp add: use_resource_assigned_fail update_availability_success_iff
        update_availability_fail_same)
qed

theorem use_resource_forwards_witness:
  "0 \<in> set (assigned_resources household) \<and>
   snd (snd (use_resource int_formatter ''2024-01-01T00:00:00'' demo_heap household 0 1500)) =
     check_mark @ '' 1500 units of Water consumed. Remaining: 8500.00'' \<and>
   consumption_history
     (fst (snd (use_resource int_formatter ''2024-01-01T00:00:00'' demo_heap household 0 1500))) =
     [[(''consumer'', PStr ''Residential Block A''), (''resource'', PStr ''Water''),
       (''amount'', PNum 1500), (''remaining'', PNum 8500)]]"
proof -
  have h: "0 \<in> set (assigned_resources household)"
    by (simp add: household_eval)
  have u: "update_availability int_formatter ''2024-01-01T00:00:00'' (demo_heap 0) 1500 =
      ((demo_heap 0)\<lparr>total_available := 8500,
         usage_log := [[(''resource'', PStr ''Water''), (''amount'', PNum 1500),
           (''remaining'', PNum 8500), (''timestamp'', PStr ''2024-01-01T00:00:00'')]]\<rparr>,
       check_mark @ '' 1500 units of Water consumed. Remaining: 8500.00'')"
    by (simp add: update_availability_def demo_eval py_round_def fmt_eval)
  have t: "total_available (demo_heap 0) = 10000" "name (demo_heap 0) = ''Water''"
    by (simp_all add: demo_eval)
  from use_resource_forwards [where res = 0 and c = household and amount = 1500
      and heap = demo_heap and F = int_formatter and now = "''2024-01-01T00:00:00''"]
  show ?thesis using h u t by (simp add: household_eval)
qed

subsection \<open>Outcomes are message strings\<close>



subsection \<open>Assignment\<close>

text \<open>
  Claim C5, as stated: after two \<open>assign_resource\<close> calls with the same resource the
  list holds exactly one entry for it. A consumer constructed with a list that already
  holds the resource twice keeps both entries: both calls report the duplicate and
  change nothing.
\<close>

theorem assign_twice_counterexample:
  "count_list (assigned_resources
     (fst (assign_resource demo_heap
       (fst (assign_resource demo_heap
         (Consumer_init (IdStr ''C-101'') ''Residential Block A'' (Some [0, 0])) 0)) 0))) 0 = 2"
  by (simp add: assign_resource_def Consumer_init_def)

text \<open>
  Claim C5, amended. If the resource is in \<open>assigned_resources\<close> the call returns the
  already-assigned message and the unchanged consumer; otherwise it appends the resource
  and returns the assigned message. A second call with the same resource always reports
  the duplicate, not success, and changes nothing. After the two calls the list holds
  exactly one entry for the resource provided it held at most one before.
\<close>

theorem assign_resource_idempotent:
  "(res \<in> set (assigned_resources c) \<longrightarrow>
      assign_resource heap c res =
        (c, warn_mark @ '' '' @ name (heap res) @ '' is already assigned to '' @
            consumer_name c @ ''.'')) \<and>
   (res \<notin> set (assigned_resources c) \<longrightarrow>
      assign_resource heap c res =
        (c\<lparr>assigned_resources := assigned_resources c @ [res]\<rparr>,
         check_mark @ '' '' @ name (heap res) @ '' assigned to '' @ consumer_name c @ ''.'')) \<and>
   assign_resource heap (fst (assign_resource heap c res)) res =
     (fst (assign_resource heap c res),
      warn_mark @ '' '' @ name (heap res) @ '' is already assigned to '' @
        consumer_name c @ ''.'') \<and>
   \<not> startswith (snd (assign_resource heap (fst (assign_resource heap c res)) res)) check_mark \<and>
   (count_list (assigned_resources c) res \<le> 1 \<longrightarrow>
      count_list (assigned_resources
        (fst (assign_resource heap (fst (assign_resource heap c res)) res))) res = 1)"
proof -
  let ?c1 = "fst (assign_resource heap c res)"
  have m: "res \<in> set (assigned_resources ?c1)"
    by (rule assign_resource_member)
  have nm: "consumer_name ?c1 = consumer_name c"
    by (simp add: assign_resource_def)
  have second: "assign_resource heap ?c1 res =
     (?c1, warn_mark @ '' '' @ name (heap res) @ '' is already assigned to '' @
        consumer_name c @ ''.'')"
    using assign_resource_present [OF m, of heap] nm by simp
  have cnt: "count_list (assigned_resources c) res \<le> 1 \<longrightarrow>
      count_list (assigned_resources (fst (assign_resource heap ?c1 res))) res = 1"
    by (simp add: second assign_resource_count)
  have nok: "\<not> startswith (snd (assign_resource heap ?c1 res)) check_mark"
    by (simp add: second startswith_marks)
  show ?thesis
    using second cnt nok
    by (simp add: assign_resource_present assign_resource_absent)
qed

theorem assign_resource_idempotent_witness:
  "assign_resource demo_heap (Consumer_init (IdStr ''C-101'') ''Residential Block A'' None) 0 =
     (\<lparr>consumer_id = IdStr ''C-101'', consumer_name = ''Residential Block A'',
        assigned_resources = [0], consumption_history = []\<rparr>,
      check_mark @ '' Water assigned to Residential Block A.'') \<and>
   assign_resource demo_heap
     (fst (assign_resource demo_heap
        (Consumer_init (IdStr ''C-101'') ''Residential Block A'' None) 0)) 0 =
     (\<lparr>consumer_id = IdStr ''C-101'', consumer_name = ''Residential Block A'',
        assigned_resources = [0], consumption_history = []\<rparr>,
      warn_mark @ '' Water is already assigned to Residential Block A.'')"
  using assign_resource_idempotent [where res = 0 and heap = demo_heap
      and c = "Consumer_init (IdStr ''C-101'') ''Residential Block A'' None"]
  by (simp add: Consumer_init_def demo_eval assign_resource_def)

subsection \<open>Reporting\<close>


subsection \<open>The availability invariant\<close>



end
